theory Spec2Isabelle
  imports Complex_Main
begin

section \<open>Attendance marking page (AttendancePage.jsx)\<close>

text \<open>
  A plain JavaScript object created by \<open>{}\<close>, holding strings: the list of its own
  properties in the order of their creation.

  \<open>obj_define\<close> is the definition of an own property, as a computed key in an
  object literal does it: an existing key keeps its place and gets the new value, a
  new key is appended.

  \<open>obj_set\<close> is the assignment \<open>obj[k] = v\<close> of a string. It defines the own
  property, except for the key \<open>__proto__\<close> on an object that has no own property
  of that name: there the assignment goes to the setter inherited from
  \<open>Object.prototype\<close>, which ignores a string, and the object stays as it is.
\<close>

type_synonym 'v js_object = "(string \<times> 'v) list"

fun obj_define :: "'v js_object \<Rightarrow> string \<Rightarrow> 'v \<Rightarrow> 'v js_object" where
  "obj_define [] k v = [(k, v)]"
| "obj_define ((k', v') # kvs) k v =
     (if k' = k then (k, v) # kvs else (k', v') # obj_define kvs k v)"

definition obj_set :: "'v js_object \<Rightarrow> string \<Rightarrow> 'v \<Rightarrow> 'v js_object" where
  "obj_set obj k v =
     (if k = ''__proto__'' \<and> map_of obj k = None then obj else obj_define obj k v)"

text \<open>
  The order in which the own keys are listed: first the keys that are array
  indices (the canonical decimal numerals below \<open>2^32 - 1\<close>), by ascending value,
  then the other keys in the order of their creation.
\<close>

fun decimal_value :: "string \<Rightarrow> nat \<Rightarrow> nat option" where
  "decimal_value [] acc = Some acc"
| "decimal_value (c # cs) acc =
     (if 48 \<le> (of_char c :: nat) \<and> (of_char c :: nat) \<le> 57
      then decimal_value cs (10 * acc + (of_char c - 48))
      else None)"

definition array_index :: "string \<Rightarrow> nat option" where
  "array_index k =
     (case k of
        [] \<Rightarrow> None
      | c # cs \<Rightarrow>
          (if c = CHR ''0'' \<and> cs \<noteq> [] then None
           else (case decimal_value k 0 of
                   None \<Rightarrow> None
                 | Some n \<Rightarrow> (if n < 2 ^ 32 - 1 then Some n else None))))"

definition index_rank :: "string \<times> 'v \<Rightarrow> nat" where
  "index_rank kv = (case array_index (fst kv) of None \<Rightarrow> 0 | Some n \<Rightarrow> n)"

definition Object_entries :: "'v js_object \<Rightarrow> (string \<times> 'v) list" where
  "Object_entries obj =
     sort_key index_rank (filter (\<lambda>kv. array_index (fst kv) \<noteq> None) obj)
       @ filter (\<lambda>kv. array_index (fst kv) = None) obj"

definition Object_values :: "'v js_object \<Rightarrow> 'v list" where
  "Object_values obj = map snd (Object_entries obj)"

text \<open>The \<open>value\<close> fields of the constant \<open>ATTENDANCE_STATUSES\<close>, in source order.\<close>

definition ATTENDANCE_STATUSES :: "string list" where
  "ATTENDANCE_STATUSES = [''present'', ''absent'', ''late'', ''excused'', ''medical'']"

text \<open>
  One row of the class-attendance response. The \<open>status\<close> of a student who has
  not been marked yet is missing or null (\<open>None\<close>).
\<close>

record attendance_row =
  student_id :: string
  status :: "string option"

datatype toast = ToastError string | ToastSuccess string

record attendance_page =
  selectedClass :: string
  selectedSection :: string
  selectedDate :: string
  attendanceData :: "attendance_row list"
  attendanceRecords :: "string js_object"
  loading_attendance :: bool
  saving :: bool
  toasts :: "toast list"

text \<open>
  \<open>student.status || 'present'\<close>: a missing, null or empty status is falsy and
  gives the default.
\<close>

definition status_or_present :: "attendance_row \<Rightarrow> string" where
  "status_or_present student =
     (case status student of
        None \<Rightarrow> ''present''
      | Some s \<Rightarrow> (if s = [] then ''present'' else s))"

text \<open>
  \<open>selectedSection || undefined\<close>: the empty selection is sent as no section.
\<close>

definition section_or_undefined :: "attendance_page \<Rightarrow> string option" where
  "section_or_undefined st =
     (if selectedSection st = [] then None else Some (selectedSection st))"

text \<open>
  \<open>fetchAttendance\<close>: the state once the request has settled.
  \<open>getClassAttendance\<close> stands for \<open>attendanceAPI.getClassAttendance\<close>, called
  with the class, the date and the section; it answers \<open>Inl\<close> for a rejected
  request and \<open>Inr\<close> with the rows of \<open>res.data\<close>.
\<close>

type_synonym 'e class_attendance_api =
  "string \<Rightarrow> string \<Rightarrow> string option \<Rightarrow> 'e + attendance_row list"

definition fetchAttendance :: "'e class_attendance_api \<Rightarrow> attendance_page \<Rightarrow> attendance_page" where
  "fetchAttendance getClassAttendance st =
     (case getClassAttendance (selectedClass st) (selectedDate st) (section_or_undefined st) of
        Inr data \<Rightarrow>
          st\<lparr>attendanceData := data,
             attendanceRecords :=
               foldl (\<lambda>records student.
                        obj_set records (student_id student) (status_or_present student))
                     [] data,
             loading_attendance := False\<rparr>
      | Inl _ \<Rightarrow>
          st\<lparr>toasts := toasts st @ [ToastError ''Failed to load attendance''],
             loading_attendance := False\<rparr>)"

text \<open>
  \<open>handleStatusChange\<close>: the spread copies the own properties in the order they
  are listed, then the computed key defines the student's entry.
\<close>

definition handleStatusChange :: "string \<Rightarrow> string \<Rightarrow> attendance_page \<Rightarrow> attendance_page" where
  "handleStatusChange studentId new_status st =
     st\<lparr>attendanceRecords :=
          obj_define (Object_entries (attendanceRecords st)) studentId new_status\<rparr>"

definition markAllPresent :: "attendance_page \<Rightarrow> attendance_page" where
  "markAllPresent st =
     st\<lparr>attendanceRecords :=
          foldl (\<lambda>records student. obj_set records (student_id student) ''present'')
                [] (attendanceData st)\<rparr>"

text \<open>The body posted by \<open>handleSaveAttendance\<close> to \<open>/attendance/bulk\<close>.\<close>

record bulk_request =
  class_id :: string
  section_id :: "string option"
  date :: string
  attendance_type :: string
  records :: "(string \<times> string) list"

definition bulk_payload :: "attendance_page \<Rightarrow> bulk_request" where
  "bulk_payload st =
     \<lparr>class_id = selectedClass st,
      section_id = section_or_undefined st,
      date = selectedDate st,
      attendance_type = ''daily'',
      records = map (\<lambda>(studentId, s). (studentId, s)) (Object_entries (attendanceRecords st))\<rparr>"

text \<open>
  \<open>handleSaveAttendance\<close>: the request posted, and the state once the bulk request
  and the reload that a successful save starts have settled (the reload is not
  awaited). \<open>bulkMarkAttendance\<close> stands for \<open>attendanceAPI.bulkMarkAttendance\<close>.
\<close>

definition handleSaveAttendance ::
  "(bulk_request \<Rightarrow> 'e + unit) \<Rightarrow> 'e class_attendance_api \<Rightarrow> attendance_page
     \<Rightarrow> bulk_request \<times> attendance_page" where
  "handleSaveAttendance bulkMarkAttendance getClassAttendance st =
     (bulk_payload st,
      (case bulkMarkAttendance (bulk_payload st) of
         Inr _ \<Rightarrow>
           (fetchAttendance getClassAttendance
              (st\<lparr>toasts := toasts st @ [ToastSuccess ''Attendance saved successfully!'']\<rparr>))
             \<lparr>saving := False\<rparr>
       | Inl _ \<Rightarrow>
           st\<lparr>toasts := toasts st @ [ToastError ''Failed to save attendance''],
              saving := False\<rparr>))"

record attendance_summary =
  total :: nat
  present :: nat
  absent :: nat
  late :: nat
  excused :: nat

definition summary :: "attendance_page \<Rightarrow> attendance_summary" where
  "summary st =
     \<lparr>total = length (attendanceData st),
      present = length (filter (\<lambda>s. s = ''present'') (Object_values (attendanceRecords st))),
      absent = length (filter (\<lambda>s. s = ''absent'') (Object_values (attendanceRecords st))),
      late = length (filter (\<lambda>s. s = ''late'') (Object_values (attendanceRecords st))),
      excused = length (filter (\<lambda>s. s \<in> set [''excused'', ''medical''])
                         (Object_values (attendanceRecords st)))\<rparr>"

text \<open>
  The loop of \<open>fetchAttendance\<close> and \<open>markAllPresent\<close> in general form: starting
  from the empty object, each element \<open>x\<close> assigns \<open>g x\<close> to the key \<open>f x\<close>.
\<close>

definition build_records :: "('a \<Rightarrow> string) \<Rightarrow> ('a \<Rightarrow> 'v) \<Rightarrow> 'a list \<Rightarrow> 'v js_object" where
  "build_records f g xs = foldl (\<lambda>records x. obj_set records (f x) (g x)) [] xs"

text \<open>A marking state with one student, marked medical.\<close>

definition medical_only_page :: attendance_page where
  "medical_only_page =
     \<lparr>selectedClass = ''c1'', selectedSection = '''', selectedDate = ''2024-01-15'',
      attendanceData = [\<lparr>student_id = ''s1'', status = Some ''medical''\<rparr>],
      attendanceRecords = [(''s1'', ''medical'')],
      loading_attendance = False, saving = False, toasts = []\<rparr>"

text \<open>A marking state of five students, one of each status.\<close>

definition mixed_page :: attendance_page where
  "mixed_page =
     \<lparr>selectedClass = ''c1'', selectedSection = '''', selectedDate = ''2024-01-15'',
      attendanceData =
        [\<lparr>student_id = ''s1'', status = Some ''present''\<rparr>,
         \<lparr>student_id = ''s2'', status = Some ''absent''\<rparr>,
         \<lparr>student_id = ''s3'', status = Some ''late''\<rparr>,
         \<lparr>student_id = ''s4'', status = Some ''excused''\<rparr>,
         \<lparr>student_id = ''s5'', status = Some ''medical''\<rparr>],
      attendanceRecords =
        [(''s1'', ''present''), (''s2'', ''absent''), (''s3'', ''late''),
         (''s4'', ''excused''), (''s5'', ''medical'')],
      loading_attendance = False, saving = False, toasts = []\<rparr>"

text \<open>A class of two students, neither of them marked for the day, with a backend
  that lists it for every class and date and accepts every save.\<close>

definition unmarked_class :: "attendance_row list" where
  "unmarked_class =
     [\<lparr>student_id = ''s1'', status = None\<rparr>, \<lparr>student_id = ''s2'', status = None\<rparr>]"

definition unmarked_api :: "unit class_attendance_api" where
  "unmarked_api classId day section = Inr unmarked_class"

definition accepting_api :: "bulk_request \<Rightarrow> unit + unit" where
  "accepting_api request = Inr ()"

section \<open>Authentication context and route guard (AuthContext.js, App.js)\<close>

text \<open>
  The user object stored by the provider. Only \<open>user_type\<close> is read by the
  guard; it is \<open>None\<close> when the field is missing or is not a string.
\<close>

record auth_user =
  user_id :: string
  user_type :: "string option"

record auth_state =
  user :: "auth_user option"
  school :: "string option"
  loading :: bool

text \<open>The three \<open>useState\<close> initial values of \<open>AuthProvider\<close>.\<close>

definition initial_auth_state :: auth_state where
  "initial_auth_state = \<lparr>user = None, school = None, loading = True\<rparr>"

text \<open>
  A \<open>localStorage\<close> item is truthy when it exists and is not the empty string.
\<close>

definition truthy_item :: "string option \<Rightarrow> bool" where
  "truthy_item item = (case item of None \<Rightarrow> False | Some s \<Rightarrow> s \<noteq> [])"

text \<open>
  The mount effect of \<open>AuthProvider\<close>, for stored items that parse. \<open>parse_user\<close>
  stands for \<open>JSON.parse\<close> on the stored user (\<open>None\<close> for a parsed null), and
  the school is kept as its JSON text.
\<close>

definition mount_effect ::
  "(string \<Rightarrow> auth_user option) \<Rightarrow> string option \<Rightarrow> string option \<Rightarrow> string option
     \<Rightarrow> auth_state \<Rightarrow> auth_state" where
  "mount_effect parse_user storedUser storedSchool token st =
     (case storedUser of
        Some su \<Rightarrow>
          (if su \<noteq> [] \<and> truthy_item token
           then st\<lparr>user := parse_user su,
                   school := (if truthy_item storedSchool then storedSchool else school st),
                   loading := False\<rparr>
           else st\<lparr>loading := False\<rparr>)
      | None \<Rightarrow> st\<lparr>loading := False\<rparr>)"

text \<open>The state updates of \<open>login\<close>, \<open>register\<close>, \<open>logout\<close>, \<open>updateUser\<close>
  and \<open>updateSchool\<close> once their request has succeeded.\<close>

definition login :: "auth_user option \<Rightarrow> auth_state \<Rightarrow> auth_state" where
  "login userData st = st\<lparr>user := userData\<rparr>"

definition register :: "auth_user option \<Rightarrow> string option \<Rightarrow> auth_state \<Rightarrow> auth_state" where
  "register userData schoolData st = st\<lparr>user := userData, school := schoolData\<rparr>"

definition logout :: "auth_state \<Rightarrow> auth_state" where
  "logout st = st\<lparr>user := None, school := None\<rparr>"

definition updateUser :: "auth_user option \<Rightarrow> auth_state \<Rightarrow> auth_state" where
  "updateUser userData st = st\<lparr>user := userData\<rparr>"

definition updateSchool :: "string option \<Rightarrow> auth_state \<Rightarrow> auth_state" where
  "updateSchool schoolData st = st\<lparr>school := schoolData\<rparr>"

text \<open>
  The states the provider goes through: the initial one, the one its mount effect
  leaves, and from then on those its callbacks produce. The callbacks are called
  from pages, which the guards render only once \<open>loading\<close> is off.
\<close>

inductive provider_state :: "auth_state \<Rightarrow> bool" where
  initial: "provider_state initial_auth_state"
| mounted:
    "provider_state (mount_effect parse_user storedUser storedSchool token initial_auth_state)"
| logged_in: "provider_state st \<Longrightarrow> \<not> loading st \<Longrightarrow> provider_state (login userData st)"
| registered:
    "provider_state st \<Longrightarrow> \<not> loading st \<Longrightarrow> provider_state (register userData schoolData st)"
| logged_out: "provider_state st \<Longrightarrow> \<not> loading st \<Longrightarrow> provider_state (logout st)"
| user_updated:
    "provider_state st \<Longrightarrow> \<not> loading st \<Longrightarrow> provider_state (updateUser userData st)"
| school_updated:
    "provider_state st \<Longrightarrow> \<not> loading st \<Longrightarrow> provider_state (updateSchool schoolData st)"

text \<open>What \<open>useAuth\<close> hands to the guards: \<open>isAuthenticated\<close> is \<open>!!user\<close>.\<close>

definition isAuthenticated :: "auth_state \<Rightarrow> bool" where
  "isAuthenticated st = (user st \<noteq> None)"

text \<open>\<open>allowedTypes.includes(user?.user_type)\<close>.\<close>

definition includes_user_type :: "string list \<Rightarrow> auth_user option \<Rightarrow> bool" where
  "includes_user_type allowedTypes u =
     (case u of
        None \<Rightarrow> False
      | Some usr \<Rightarrow> (case user_type usr of None \<Rightarrow> False | Some t \<Rightarrow> t \<in> set allowedTypes))"

text \<open>
  What a route renders: the loading spinner, a \<open>Navigate\<close> to a path, a page
  component, or \<open>MainLayout\<close> around the element of the matched child route.
\<close>

datatype element = Spinner | Navigate string | Page string | MainLayout element

definition ProtectedRoute :: "element \<Rightarrow> string list option \<Rightarrow> auth_state \<Rightarrow> element" where
  "ProtectedRoute children allowedTypes st =
     (if loading st then Spinner
      else if \<not> isAuthenticated st then Navigate ''/login''
      else if (case allowedTypes of
                 None \<Rightarrow> False
               | Some ts \<Rightarrow> \<not> includes_user_type ts (user st))
        then Navigate ''/dashboard''
      else children)"

definition PublicRoute :: "element \<Rightarrow> auth_state \<Rightarrow> element" where
  "PublicRoute children st =
     (if loading st then Spinner
      else if isAuthenticated st then Navigate ''/dashboard''
      else children)"

definition admin_types :: "string list" where
  "admin_types = [''school_admin'', ''super_admin'', ''principal'']"

text \<open>The child routes of the layout route \<open>/\<close>, in source order, by path.\<close>

definition layout_routes :: "(string \<times> (auth_state \<Rightarrow> element)) list" where
  "layout_routes =
     [(''dashboard'', \<lambda>st. Page ''DashboardPage''),
      (''school-setup'', ProtectedRoute (Page ''SchoolSetupPage'') (Some admin_types)),
      (''users'', ProtectedRoute (Page ''UsersPage'') (Some admin_types)),
      (''classes'', ProtectedRoute (Page ''ClassesPage'') (Some admin_types)),
      (''subjects'', ProtectedRoute (Page ''SubjectsPage'') (Some admin_types)),
      (''students'', \<lambda>st. Page ''StudentsPage''),
      (''attendance'', \<lambda>st. Page ''AttendancePage''),
      (''grades'', \<lambda>st. Page ''GradesPage''),
      (''my-classes'', ProtectedRoute (Page ''My Classes'') (Some [''teacher''])),
      (''assignments'', \<lambda>st. Page ''GradesPage''),
      (''gradebook'', \<lambda>st. Page ''GradesPage''),
      (''schedule'', \<lambda>st. Page ''Schedule''),
      (''my-children'', ProtectedRoute (Page ''My Children'') (Some [''parent''])),
      (''leave-request'', ProtectedRoute (Page ''Leave Request'') (Some [''parent''])),
      (''timetable'', \<lambda>st. Page ''Timetable''),
      (''calendar'', \<lambda>st. Page ''Calendar''),
      (''messages'', \<lambda>st. Page ''Messages''),
      (''reports'', \<lambda>st. Page ''Reports''),
      (''settings'', \<lambda>st. Page ''Settings''),
      (''profile'', \<lambda>st. Page ''Profile'')]"

text \<open>
  \<open>AppRoutes\<close> at the location \<open>/path\<close>, \<open>path\<close> a single segment: the public
  routes, then the layout route, whose index and unmatched children navigate to the
  dashboard. The layout and its child are rendered only when the outer guard lets
  its children through.
\<close>

definition AppRoutes :: "string \<Rightarrow> auth_state \<Rightarrow> element" where
  "AppRoutes path st =
     (if path = ''login'' then PublicRoute (Page ''LoginPage'') st
      else if path = ''register'' then PublicRoute (Page ''RegisterPage'') st
      else ProtectedRoute
             (MainLayout (case map_of layout_routes path of
                            Some route \<Rightarrow> route st
                          | None \<Rightarrow> Navigate ''/dashboard''))
             None st)"

text \<open>A teacher who is logged in, after the provider has mounted.\<close>

definition teacher_state :: auth_state where
  "teacher_state =
     login (Some \<lparr>user_id = ''u1'', user_type = Some ''teacher''\<rparr>)
       (mount_effect (\<lambda>s. None) None None None initial_auth_state)"

section \<open>The shared API client (services/api.js)\<close>

text \<open>
  A response is either delivered (\<open>Delivered\<close>, with its data) or the request is
  rejected with an error whose \<open>error.response?.status\<close> is the given status
  (\<open>None\<close> when there is no response at all).
\<close>

datatype api_response = Delivered string | Rejected "nat option"

text \<open>
  The part of an axios request configuration the interceptors touch: the
  \<open>Authorization\<close> header and the \<open>_retry\<close> flag.
\<close>

record request_config =
  url :: string
  authorization :: "string option"
  retry :: bool

datatype event =
    Sent request_config
  | RefreshPosted string
  | SetItem string string
  | RemoveItem string
  | Redirected string

text \<open>
  The browser: \<open>localStorage\<close>, \<open>window.location.href\<close> and, for stating the
  order of effects, the list of what has been done so far.
\<close>

record browser =
  localStorage :: "string \<rightharpoonup> string"
  href :: string
  events :: "event list"

text \<open>
  The backend, as the client sees it: the answer to a request and the outcome of
  posting a refresh token to \<open>/auth/refresh-token\<close> (\<open>Inr\<close> the new access token),
  each of which may depend on everything that happened before.
\<close>

record 'e backend =
  respond :: "event list \<Rightarrow> request_config \<Rightarrow> api_response"
  refresh :: "event list \<Rightarrow> string \<Rightarrow> 'e + string"

text \<open>The request interceptor: adds the bearer token when one is stored.\<close>

definition request_interceptor :: "browser \<Rightarrow> request_config \<Rightarrow> request_config" where
  "request_interceptor w config =
     (case localStorage w ''access_token'' of
        Some token \<Rightarrow>
          (if token \<noteq> [] then config\<lparr>authorization := Some (''Bearer '' @ token)\<rparr> else config)
      | None \<Rightarrow> config)"

text \<open>
  \<open>api\<close> sends a request through both interceptors; \<open>response_error\<close> is the
  rejection handler of the response interceptor, which on a first 401 refreshes the
  token and calls \<open>api\<close> again with the same configuration, now flagged \<open>_retry\<close>
  (axios passes the flag on to the error of the repeated request). A failed refresh
  is anything thrown inside the \<open>try\<close> block before the repetition starts; the
  outcome of the repetition itself is returned as it is. The result is the settled
  response together with the browser afterwards.
\<close>

function api :: "'e backend \<Rightarrow> request_config \<Rightarrow> browser \<Rightarrow> api_response \<times> browser"
  and response_error ::
    "'e backend \<Rightarrow> request_config \<Rightarrow> nat option \<Rightarrow> browser \<Rightarrow> api_response \<times> browser"
where
  "api srv config w =
     (case respond srv (events w) (request_interceptor w config) of
        Delivered data \<Rightarrow>
          (Delivered data, w\<lparr>events := events w @ [Sent (request_interceptor w config)]\<rparr>)
      | Rejected st \<Rightarrow>
          response_error srv (request_interceptor w config) st
            (w\<lparr>events := events w @ [Sent (request_interceptor w config)]\<rparr>))"
| "response_error srv originalRequest st w =
     (if st = Some 401 \<and> \<not> retry originalRequest then
        (case localStorage w ''refresh_token'' of
           Some refreshToken \<Rightarrow>
             (if refreshToken \<noteq> [] then
                (case refresh srv (events w) refreshToken of
                   Inr access_token \<Rightarrow>
                     api srv (originalRequest\<lparr>retry := True\<rparr>)
                       (w\<lparr>localStorage := (localStorage w)(''access_token'' \<mapsto> access_token),
                          events := events w @
                            [RefreshPosted refreshToken, SetItem ''access_token'' access_token]\<rparr>)
                 | Inl _ \<Rightarrow>
                     (Rejected st,
                      w\<lparr>localStorage :=
                           (localStorage w)(''access_token'' := None, ''refresh_token'' := None,
                                            ''user'' := None),
                         href := ''/login'',
                         events := events w @
                           [RefreshPosted refreshToken, RemoveItem ''access_token'',
                            RemoveItem ''refresh_token'', RemoveItem ''user'',
                            Redirected ''/login'']\<rparr>))
              else (Rejected st, w))
         | None \<Rightarrow> (Rejected st, w))
      else (Rejected st, w))"
  by pat_completeness auto
termination
  by (relation "measure (\<lambda>x. case x of
                   Inl (srv, config, w) \<Rightarrow> (if retry config then 1 else 3)
                 | Inr (srv, config, st, w) \<Rightarrow> (if retry config then 0 else 2))")
     (auto simp: request_interceptor_def split: option.splits)

declare api.simps [simp del] response_error.simps [simp del]

fun is_refresh :: "event \<Rightarrow> bool" where
  "is_refresh (RefreshPosted _) = True"
| "is_refresh _ = False"

fun is_sent :: "event \<Rightarrow> bool" where
  "is_sent (Sent _) = True"
| "is_sent _ = False"

text \<open>
  A backend that answers every request with 401 and refuses every refresh, and a
  browser holding a session.
\<close>

definition expired_backend :: "unit backend" where
  "expired_backend =
     \<lparr>respond = (\<lambda>evs config. Rejected (Some 401)), refresh = (\<lambda>evs token. Inl ())\<rparr>"

definition session_browser :: browser where
  "session_browser =
     \<lparr>localStorage = [''access_token'' \<mapsto> ''a1'', ''refresh_token'' \<mapsto> ''r1'',
                      ''user'' \<mapsto> ''{}''],
      href = ''/dashboard'', events = []\<rparr>"

definition students_request :: request_config where
  "students_request = \<lparr>url = ''/students'', authorization = None, retry = False\<rparr>"

section \<open>Student and parent pages (ChildrenPage.jsx, StudentPortalPage, DashboardPage)\<close>

text \<open>
  Response bodies are JSON. A JavaScript value read from one is a JSON value or
  \<open>undefined\<close> (\<open>None\<close>); numbers are kept exact.
\<close>

datatype json =
    JNull
  | JBool bool
  | JNum rat
  | JStr string
  | JArr "json list"
  | JObj "(string \<times> json) list"

type_synonym jsval = "json option"

text \<open>\<open>v?.k\<close>: undefined on null and undefined, the member otherwise.\<close>

definition opt_chain :: "jsval \<Rightarrow> string \<Rightarrow> jsval" where
  "opt_chain v k =
     (case v of
        None \<Rightarrow> None
      | Some JNull \<Rightarrow> None
      | Some (JObj members) \<Rightarrow> map_of members k
      | Some _ \<Rightarrow> None)"

definition truthy :: "jsval \<Rightarrow> bool" where
  "truthy v =
     (case v of
        None \<Rightarrow> False
      | Some JNull \<Rightarrow> False
      | Some (JBool b) \<Rightarrow> b
      | Some (JNum n) \<Rightarrow> n \<noteq> 0
      | Some (JStr s) \<Rightarrow> s \<noteq> []
      | Some _ \<Rightarrow> True)"

text \<open>\<open>a || b\<close>.\<close>

definition js_or :: "jsval \<Rightarrow> jsval \<Rightarrow> jsval" where
  "js_or a b = (if truthy a then a else b)"

text \<open>
  The text a JSX expression \<open>{v}\<close> puts on the page: nothing for null, undefined
  and booleans, the number or string itself otherwise. An object as a child makes
  React throw.
\<close>

datatype piece = Number rat | Text string

datatype render_error = ObjectAsChild

fun render_child :: "jsval \<Rightarrow> render_error + piece list" where
  "render_child None = Inr []"
| "render_child (Some JNull) = Inr []"
| "render_child (Some (JBool b)) = Inr []"
| "render_child (Some (JNum n)) = Inr [Number n]"
| "render_child (Some (JStr s)) = Inr [Text s]"
| "render_child (Some (JArr [])) = Inr []"
| "render_child (Some (JArr (x # xs))) =
     (case render_child (Some x) of
        Inl e \<Rightarrow> Inl e
      | Inr ps \<Rightarrow> (case render_child (Some (JArr xs)) of
                     Inl e \<Rightarrow> Inl e
                   | Inr qs \<Rightarrow> Inr (ps @ qs)))"
| "render_child (Some (JObj members)) = Inl ObjectAsChild"

text \<open>\<open>{v || 0}%\<close>, the form of all three attendance figures.\<close>

definition percent_text :: "jsval \<Rightarrow> render_error + piece list" where
  "percent_text v =
     (case render_child (js_or v (Some (JNum 0))) of
        Inl e \<Rightarrow> Inl e
      | Inr ps \<Rightarrow> Inr (ps @ [Text ''%'']))"

text \<open>
  Promises as their outcome: \<open>Inl\<close> a rejection with its reason, \<open>Inr\<close> the
  value. \<open>p.catch(() => v)\<close> and \<open>Promise.all([p, q])\<close>:
\<close>

definition catch_with :: "'e + 'a \<Rightarrow> 'a \<Rightarrow> 'e + 'a" where
  "catch_with p v = (case p of Inl _ \<Rightarrow> Inr v | Inr a \<Rightarrow> Inr a)"

definition Promise_all :: "'e + 'a \<Rightarrow> 'e + 'b \<Rightarrow> 'e + ('a \<times> 'b)" where
  "Promise_all p q =
     (case p of
        Inl e \<Rightarrow> Inl e
      | Inr a \<Rightarrow> (case q of Inl e \<Rightarrow> Inl e | Inr b \<Rightarrow> Inr (a, b)))"

definition no_attendance :: json where
  "no_attendance = JObj [(''records'', JArr []), (''summary'', JObj [])]"

definition no_grades :: json where
  "no_grades = JObj [(''subjects'', JArr [])]"

text \<open>The state of \<open>ParentChildrenPage\<close> that decides what is shown, and the
  console.\<close>

record children_page =
  children :: "json list"
  selectedChild :: jsval
  loading_children :: bool
  attendanceData_child :: jsval
  gradesData_child :: jsval
  console_errors :: "string list"

text \<open>
  \<open>fetchChildData\<close>, given the outcomes of \<open>getStudentAttendance\<close> and
  \<open>getStudentGrades\<close> (the \<open>data\<close> of each response): how its own promise
  settles, and the page state afterwards.
\<close>

definition fetchChildData ::
  "'e + json \<Rightarrow> 'e + json \<Rightarrow> children_page \<Rightarrow> ('e + unit) \<times> children_page" where
  "fetchChildData attendanceRes gradesRes st =
     (case Promise_all (catch_with attendanceRes no_attendance) (catch_with gradesRes no_grades) of
        Inr (attendance, grades) \<Rightarrow>
          (Inr (), st\<lparr>attendanceData_child := Some attendance, gradesData_child := Some grades\<rparr>)
      | Inl _ \<Rightarrow>
          (Inr (), st\<lparr>console_errors := console_errors st @ [''Failed to fetch child data:'']\<rparr>))"

text \<open>The state of \<open>StudentPortalPage\<close>.\<close>

record portal_page =
  dashboardData :: jsval
  gradesData :: jsval
  loading_portal :: bool
  toasts_portal :: "toast list"

text \<open>
  \<open>fetchData\<close>, given the outcomes of \<open>getStudentDashboard\<close> and \<open>getMyGrades\<close>.
\<close>

definition fetchData ::
  "'e + json \<Rightarrow> 'e + json \<Rightarrow> portal_page \<Rightarrow> ('e + unit) \<times> portal_page" where
  "fetchData dashRes gradesRes st =
     (case Promise_all dashRes (catch_with gradesRes no_grades) of
        Inr (dash, grades) \<Rightarrow>
          (Inr (), st\<lparr>dashboardData := Some dash, gradesData := Some grades,
                       loading_portal := False\<rparr>)
      | Inl _ \<Rightarrow>
          (Inr (), st\<lparr>toasts_portal := toasts_portal st @ [ToastError ''Failed to load data''],
                       loading_portal := False\<rparr>))"

text \<open>
  What a page shows in the place of a figure: the loading spinner, the card it
  returns early when there is nothing to show (with its first line), nothing, or
  the figure.
\<close>

datatype figure_view =
    LoadingSpinner
  | EmptyCard string
  | NotShown
  | Figure "render_error + piece list"

text \<open>
  \<open>{dashboardData?.attendance?.percentage || 0}%\<close> in \<open>StudentPortalPage\<close>, which
  returns early while loading and when \<open>dashboardData?.student\<close> is falsy.
\<close>

definition StudentPortalPage_attendance :: "portal_page \<Rightarrow> figure_view" where
  "StudentPortalPage_attendance st =
     (if loading_portal st then LoadingSpinner
      else if \<not> truthy (opt_chain (dashboardData st) ''student'')
        then EmptyCard ''Student profile not found.''
      else Figure (percent_text
                     (opt_chain (opt_chain (dashboardData st) ''attendance'') ''percentage'')))"

text \<open>
  \<open>{attendanceData?.summary?.attendance_percentage || 0}%\<close> in
  \<open>ParentChildrenPage\<close>, which returns early while loading and when there are no
  children, and shows the child's card only for a selected child.
\<close>

definition ParentChildrenPage_attendance :: "children_page \<Rightarrow> figure_view" where
  "ParentChildrenPage_attendance st =
     (if loading_children st then LoadingSpinner
      else if children st = [] then EmptyCard ''No children linked to your account.''
      else if truthy (selectedChild st)
        then Figure (percent_text
                       (opt_chain (opt_chain (attendanceData_child st) ''summary'')
                          ''attendance_percentage''))
      else NotShown)"

text \<open>\<open>{data?.attendance?.percentage || 0}%\<close> in \<open>StudentDashboard\<close>, which has no
  early return.\<close>

definition StudentDashboard_attendance :: "jsval \<Rightarrow> figure_view" where
  "StudentDashboard_attendance data =
     Figure (percent_text (opt_chain (opt_chain data ''attendance'') ''percentage''))"

text \<open>
  The progress bar \<open>value={subject.average_percentage || 0}\<close> of a subject card,
  for a subject that is an object.
\<close>

definition average_progress :: "(string \<times> json) list \<Rightarrow> jsval" where
  "average_progress subject = js_or (map_of subject ''average_percentage'') (Some (JNum 0))"

text \<open>The parent's page with one child selected and nothing fetched yet, and the
  student's page before its data arrive.\<close>

definition initial_children_page :: children_page where
  "initial_children_page =
     \<lparr>children = [JObj [(''id'', JStr ''s1'')]],
      selectedChild = Some (JObj [(''id'', JStr ''s1'')]),
      loading_children = False,
      attendanceData_child = Some JNull, gradesData_child = Some JNull, console_errors = []\<rparr>"

definition initial_portal_page :: portal_page where
  "initial_portal_page =
     \<lparr>dashboardData = Some JNull, gradesData = Some JNull, loading_portal = True,
      toasts_portal = []\<rparr>"

text \<open>A dashboard response for a student without any marked day.\<close>

definition unmarked_dashboard :: json where
  "unmarked_dashboard =
     JObj [(''student'', JObj [(''first_name'', JStr ''Ada'')]),
           (''attendance'', JObj [(''percentage'', JNull)])]"

section \<open>Authorization guard and aggregation service\<close>

text \<open>
  The backend authorizes requests and computes the attendance percentage and the
  grade averages that the pages above read from its responses. Its code is not
  part of the sources modelled here; the three operations below follow the
  specification's description of them.
\<close>

subsection \<open>Authorization guard\<close>

datatype role =
    SuperAdmin | SchoolAdmin | Principal | Teacher | Parent | Student | FinanceOfficer | Staff

datatype action = Create | Read | Update | Deactivate | Bulk

datatype deny_reason = CrossTenantAccess | ForbiddenAction | NotOwner

datatype decision = Allow | Deny deny_reason

record acting_user =
  acting_id :: string
  school_id :: string
  acting_role :: role

text \<open>The Role-Permission Table: for each role, the (resource, action) pairs it
  is granted.\<close>

type_synonym permission_table = "role \<Rightarrow> (string \<times> action) list"

definition ownership_scoped :: "role \<Rightarrow> bool" where
  "ownership_scoped r = (r = Parent \<or> r = Student \<or> r = Teacher)"

text \<open>
  Modelled from the spec: \<open>authorize\<close> (section 4.2), which the frontend sources do not
  contain. The tenant check comes first; then the table lookup; then, for the
  ownership-scoped roles, the ownership relation, whose lookup is a collaborator
  call and may fail (\<open>Inl\<close>), in which case the failure is passed on.
\<close>

definition authorize ::
  "permission_table \<Rightarrow> acting_user \<Rightarrow> action \<Rightarrow> string \<Rightarrow> string \<Rightarrow> ('e + bool)
     \<Rightarrow> 'e + decision" where
  "authorize table usr act resourceType resourceTenantId ownershipCheck =
     (if resourceTenantId \<noteq> school_id usr then Inr (Deny CrossTenantAccess)
      else if (resourceType, act) \<notin> set (table (acting_role usr))
        then Inr (Deny ForbiddenAction)
      else if ownership_scoped (acting_role usr) then
        (case ownershipCheck of
           Inl e \<Rightarrow> Inl e
         | Inr owns \<Rightarrow> (if owns then Inr Allow else Inr (Deny NotOwner)))
      else Inr Allow)"

text \<open>A teacher of school S1 and a table that grants teachers the bulk marking of
  attendance.\<close>

definition teacher_of_S1 :: acting_user where
  "teacher_of_S1 = \<lparr>acting_id = ''T'', school_id = ''S1'', acting_role = Teacher\<rparr>"

definition teachers_mark_attendance :: permission_table where
  "teachers_mark_attendance r =
     (if r = Teacher then [(''attendance'', Read), (''attendance'', Bulk)] else [])"

subsection \<open>Attendance summary\<close>

datatype attendance_status = Present | Absent | Late | Excused | Medical

record AttendanceRecord =
  record_student :: string
  record_date :: int
  record_status :: attendance_status

record attendance_result =
  present_count :: nat
  absent_count :: nat
  late_count :: nat
  excused_count :: nat
  percentage :: rat

text \<open>Rounding to one decimal place: the nearest tenth.\<close>

definition round1 :: "rat \<Rightarrow> rat" where
  "round1 x = of_int (round (x * 10)) / 10"

text \<open>The records of the marked days within the range given by the caller.\<close>

definition marked_days :: "AttendanceRecord list \<Rightarrow> int \<Rightarrow> int \<Rightarrow> AttendanceRecord list" where
  "marked_days recs start_date end_date =
     filter (\<lambda>r. start_date \<le> record_date r \<and> record_date r \<le> end_date) recs"

definition count_status :: "attendance_status \<Rightarrow> AttendanceRecord list \<Rightarrow> nat" where
  "count_status s recs = length (filter (\<lambda>r. record_status r = s) recs)"

text \<open>
  Modelled from the spec: \<open>summarizeAttendance\<close> (section 4.3), which the frontend
  sources do not contain. It counts the records per status and divides the present
  count by the number of marked days; days without a record do not occur in the
  input and so not in the denominator. With no marked day the percentage is 0.
\<close>

definition summarizeAttendance ::
  "AttendanceRecord list \<Rightarrow> int \<Rightarrow> int \<Rightarrow> attendance_result" where
  "summarizeAttendance recs start_date end_date =
     (let marked = marked_days recs start_date end_date;
          total_marked_days = length marked
      in \<lparr>present_count = count_status Present marked,
          absent_count = count_status Absent marked,
          late_count = count_status Late marked,
          excused_count = count_status Excused marked,
          percentage =
            (if total_marked_days = 0 then 0
             else round1 (of_nat (count_status Present marked) / of_nat total_marked_days
                          * 100))\<rparr>)"

text \<open>Ten marked days of one student: 7 present, 2 absent, 1 late.\<close>

definition ten_days :: "AttendanceRecord list" where
  "ten_days =
     map (\<lambda>(d, s). \<lparr>record_student = ''s1'', record_date = d, record_status = s\<rparr>)
       [(1, Present), (2, Present), (3, Absent), (4, Present), (5, Late),
        (8, Present), (9, Present), (10, Absent), (11, Present), (12, Present)]"

subsection \<open>Grade average\<close>

record Grade =
  score :: rat
  max_score :: rat
  weight :: rat

text \<open>
  Modelled from the spec: \<open>averageGrades\<close> (section 4.3), which the frontend sources
  do not contain. Entries with \<open>max_score = 0\<close> are dropped before either sum is
  taken; with nothing left the result is null (\<open>None\<close>).
\<close>

definition averageGrades :: "Grade list \<Rightarrow> rat option" where
  "averageGrades grades =
     (let valid = filter (\<lambda>g. max_score g \<noteq> 0) grades
      in if valid = [] then None
         else Some (sum_list (map (\<lambda>g. score g / max_score g * weight g) valid)
                    / sum_list (map weight valid) * 100))"

definition two_grades :: "Grade list" where
  "two_grades =
     [\<lparr>score = 8, max_score = 10, weight = 1\<rparr>, \<lparr>score = 0, max_score = 0, weight = 1\<rparr>]"

section \<open>Properties of the attendance marking page\<close>

subsection \<open>Objects\<close>

lemma map_of_obj_define: "map_of (obj_define obj k v) = (map_of obj)(k \<mapsto> v)"
  by (induction obj) auto

lemma keys_obj_define: "fst ` set (obj_define obj k v) = insert k (fst ` set obj)"
proof (induction obj)
  case Nil
  show ?case by simp
next
  case (Cons p obj)
  obtain k' v' where p: "p = (k', v')" by (cases p)
  show ?case
  proof (cases "k' = k")
    case True
    with p show ?thesis by simp
  next
    case False
    with p Cons.IH show ?thesis by (simp add: insert_commute)
  qed
qed

lemma distinct_obj_define:
  "distinct (map fst obj) \<Longrightarrow> distinct (map fst (obj_define obj k v))"
proof (induction obj)
  case Nil
  show ?case by simp
next
  case (Cons p obj)
  obtain k' v' where p: "p = (k', v')" by (cases p)
  show ?case
  proof (cases "k' = k")
    case True
    with Cons.prems p show ?thesis by simp
  next
    case False
    from Cons.prems p have "k' \<notin> fst ` set obj" and d: "distinct (map fst obj)" by auto
    with False have "k' \<notin> fst ` set (obj_define obj k v)" by (simp add: keys_obj_define)
    with Cons.IH [OF d] False p show ?thesis by simp
  qed
qed

lemma map_of_obj_set:
  "k \<noteq> ''__proto__'' \<Longrightarrow> map_of (obj_set obj k v) = (map_of obj)(k \<mapsto> v)"
  by (simp add: obj_set_def map_of_obj_define)

lemma obj_set_keeps_other: "k \<noteq> k' \<Longrightarrow> map_of (obj_set obj k v) k' = map_of obj k'"
  by (simp add: obj_set_def map_of_obj_define)

lemma obj_set_no_proto:
  "map_of obj ''__proto__'' = None \<Longrightarrow> map_of (obj_set obj k v) ''__proto__'' = None"
  by (simp add: obj_set_def map_of_obj_define)

lemma keys_obj_set:
  "map_of obj ''__proto__'' = None \<Longrightarrow>
   fst ` set (obj_set obj k v) = fst ` set obj \<union> ({k} - {''__proto__''})"
  by (auto simp: obj_set_def keys_obj_define)

lemma distinct_obj_set: "distinct (map fst obj) \<Longrightarrow> distinct (map fst (obj_set obj k v))"
  by (simp add: obj_set_def distinct_obj_define)

lemma set_Object_entries: "set (Object_entries obj) = set obj"
  by (auto simp: Object_entries_def)

lemma distinct_Object_entries:
  assumes "distinct (map fst obj)"
  shows "distinct (map fst (Object_entries obj))"
proof -
  from assms have d: "distinct obj" and i: "inj_on fst (set obj)"
    by (simp_all add: distinct_map)
  have "distinct (Object_entries obj)"
    using d by (auto simp: Object_entries_def)
  moreover have "inj_on fst (set (Object_entries obj))"
    using i by (simp add: set_Object_entries)
  ultimately show ?thesis by (simp add: distinct_map)
qed

lemma length_filter_split:
  "length (filter Q (filter R xs)) + length (filter Q (filter (\<lambda>x. \<not> R x) xs))
     = length (filter Q xs)"
  by (induction xs) auto

lemma length_filter_Object_values:
  "length (filter P (Object_values obj)) = length (filter P (map snd obj))"
proof -
  let ?idx = "\<lambda>kv :: string \<times> 'a. array_index (fst kv) \<noteq> None"
  have "length (filter P (Object_values obj))
      = length (filter (P \<circ> snd) (sort_key index_rank (filter ?idx obj)))
        + length (filter (P \<circ> snd) (filter (\<lambda>kv. \<not> ?idx kv) obj))"
    by (simp add: Object_values_def Object_entries_def filter_map)
  also have "\<dots> = length (filter (P \<circ> snd) (filter ?idx obj))
        + length (filter (P \<circ> snd) (filter (\<lambda>kv. \<not> ?idx kv) obj))"
    by (simp add: filter_sort)
  also have "\<dots> = length (filter (P \<circ> snd) obj)"
    by (rule length_filter_split)
  finally show ?thesis by (simp add: filter_map)
qed

lemma length_Object_values: "length (Object_values obj) = length obj"
  using length_filter_Object_values [of "\<lambda>s. True" obj] by simp

lemma set_Object_values: "set (Object_values obj) = snd ` set obj"
  by (simp add: Object_values_def set_Object_entries)

subsection \<open>The summary cards\<close>

lemma length_filter_eq_count: "length (filter (\<lambda>s. s = a) vs) = count_list vs a"
  by (induction vs) auto

lemma length_filter_two_count:
  "d \<noteq> e \<Longrightarrow> length (filter (\<lambda>s. s \<in> set [d, e]) vs) = count_list vs d + count_list vs e"
  by (induction vs) auto

lemma excused_neq_medical: "''excused'' \<noteq> ''medical''"
  by simp

lemma count_Object_values: "count_list (Object_values obj) a = count_list (map snd obj) a"
  using length_filter_Object_values [of "\<lambda>s. s = a" obj]
  by (simp add: length_filter_eq_count)

lemma count_partition_gen:
  "distinct [a, b, c, d, e] \<Longrightarrow> \<forall>s \<in> set vs. s \<in> set [a, b, c, d, e] \<Longrightarrow>
   count_list vs a + count_list vs b + count_list vs c + (count_list vs d + count_list vs e)
     = length vs"
  by (induction vs) auto

lemma statuses_distinct: "distinct ATTENDANCE_STATUSES"
  by (simp add: ATTENDANCE_STATUSES_def)

lemma count_partition:
  "\<forall>s \<in> set vs. s \<in> set ATTENDANCE_STATUSES \<Longrightarrow>
   count_list vs ''present'' + count_list vs ''absent'' + count_list vs ''late''
     + (count_list vs ''excused'' + count_list vs ''medical'') = length vs"
  unfolding ATTENDANCE_STATUSES_def
  using statuses_distinct [unfolded ATTENDANCE_STATUSES_def]
  by (rule count_partition_gen)

lemma summary_fields:
  "present (summary st) = count_list (Object_values (attendanceRecords st)) ''present''"
  "absent (summary st) = count_list (Object_values (attendanceRecords st)) ''absent''"
  "late (summary st) = count_list (Object_values (attendanceRecords st)) ''late''"
  "excused (summary st) =
     count_list (Object_values (attendanceRecords st)) ''excused''
     + count_list (Object_values (attendanceRecords st)) ''medical''"
  "total (summary st) = length (attendanceData st)"
  unfolding summary_def attendance_summary.simps length_filter_eq_count
    length_filter_two_count [OF excused_neq_medical]
  by (rule refl)+

lemma mixed_page_values:
  "count_list (Object_values (attendanceRecords mixed_page)) a
     = count_list [''present'', ''absent'', ''late'', ''excused'', ''medical''] a"
  by (simp add: count_Object_values mixed_page_def)

lemma medical_only_values:
  "count_list (Object_values (attendanceRecords medical_only_page)) a
     = count_list [''medical''] a"
  by (simp add: count_Object_values medical_only_page_def)

text \<open>
  C10. When every status in the marking state is one of the five enumerated
  values, the four displayed counts partition the records: \<open>present\<close>, \<open>absent\<close>
  and \<open>late\<close> are the numbers of records of that status, \<open>excused\<close> is the number
  of records that are excused or medical, and the four add up to the number of
  records. \<open>summary.total\<close> is the number of listed students.
\<close>

theorem summary_counts_partition:
  assumes "\<forall>s \<in> set (Object_values (attendanceRecords st)). s \<in> set ATTENDANCE_STATUSES"
  shows "present (summary st) = count_list (Object_values (attendanceRecords st)) ''present''
         \<and> absent (summary st) = count_list (Object_values (attendanceRecords st)) ''absent''
         \<and> late (summary st) = count_list (Object_values (attendanceRecords st)) ''late''
         \<and> excused (summary st) =
             count_list (Object_values (attendanceRecords st)) ''excused''
             + count_list (Object_values (attendanceRecords st)) ''medical''
         \<and> present (summary st) + absent (summary st) + late (summary st)
             + excused (summary st) = length (Object_values (attendanceRecords st))
         \<and> length (Object_values (attendanceRecords st)) = length (attendanceRecords st)
         \<and> total (summary st) = length (attendanceData st)"
  using count_partition [OF assms]
  by (simp add: summary_fields length_Object_values)

theorem summary_counts_partition_witness:
  "present (summary mixed_page) = 1 \<and> absent (summary mixed_page) = 1
   \<and> late (summary mixed_page) = 1 \<and> excused (summary mixed_page) = 2
   \<and> present (summary mixed_page) + absent (summary mixed_page) + late (summary mixed_page)
       + excused (summary mixed_page) = 5
   \<and> total (summary mixed_page) = 5"
proof -
  have "set (Object_values (attendanceRecords mixed_page)) \<subseteq> set ATTENDANCE_STATUSES"
    by (simp add: set_Object_values mixed_page_def ATTENDANCE_STATUSES_def)
  then have h: "\<forall>s \<in> set (Object_values (attendanceRecords mixed_page)).
             s \<in> set ATTENDANCE_STATUSES"
    by blast
  have l: "length (attendanceRecords mixed_page) = 5" "length (attendanceData mixed_page) = 5"
    by (simp_all add: mixed_page_def)
  from summary_counts_partition [OF h] show ?thesis
    unfolding mixed_page_values l by simp
qed

text \<open>
  C5, as the code has it. The summary of the marking page has the fields
  \<open>total\<close>, \<open>present\<close>, \<open>absent\<close>, \<open>late\<close> and \<open>excused\<close>. The counts
  \<open>present\<close>, \<open>absent\<close> and \<open>late\<close> are the numbers of records with exactly that
  status; \<open>excused\<close> is the number of records whose status is excused or medical.
\<close>

theorem summary_counts_by_status:
  "present (summary st) = count_list (Object_values (attendanceRecords st)) ''present''
   \<and> absent (summary st) = count_list (Object_values (attendanceRecords st)) ''absent''
   \<and> late (summary st) = count_list (Object_values (attendanceRecords st)) ''late''
   \<and> excused (summary st) =
       count_list (Object_values (attendanceRecords st)) ''excused''
       + count_list (Object_values (attendanceRecords st)) ''medical''"
  by (simp only: summary_fields simp_thms)

theorem summary_counts_by_status_witness:
  "present (summary medical_only_page) = 0 \<and> excused (summary medical_only_page) = 1"
  using summary_counts_by_status [of medical_only_page]
  unfolding medical_only_values by simp

text \<open>
  C5 as stated fails: with a single record marked medical, the \<open>excused\<close> count is
  1 although no record carries the status excused.
\<close>

theorem summary_medical_counterexample:
  "excused (summary medical_only_page) = 1
   \<and> count_list (Object_values (attendanceRecords medical_only_page)) ''excused'' = 0"
  by (simp add: summary_fields medical_only_values)

subsection \<open>Loading and saving the marking state\<close>

lemma build_records_snoc:
  "build_records f g (xs @ [x]) = obj_set (build_records f g xs) (f x) (g x)"
  by (simp add: build_records_def)

lemma build_records_no_proto: "map_of (build_records f g xs) ''__proto__'' = None"
proof (induction xs rule: rev_induct)
  case Nil
  show ?case by (simp add: build_records_def)
next
  case (snoc x xs)
  then show ?case by (simp add: build_records_snoc obj_set_no_proto)
qed

lemma build_records_lookup:
  assumes "k \<noteq> ''__proto__''"
  shows "\<exists>r \<in> set xs. f r = k \<Longrightarrow> \<forall>r \<in> set xs. f r = k \<longrightarrow> g r = c \<Longrightarrow>
         map_of (build_records f g xs) k = Some c"
proof (induction xs rule: rev_induct)
  case Nil
  then show ?case by simp
next
  case (snoc x xs)
  show ?case
  proof (cases "f x = k")
    case True
    with snoc.prems(2) have "g x = c" by simp
    with True assms show ?thesis by (simp add: build_records_snoc map_of_obj_set)
  next
    case False
    with snoc.prems have "\<exists>r \<in> set xs. f r = k" and "\<forall>r \<in> set xs. f r = k \<longrightarrow> g r = c"
      by auto
    from snoc.IH [OF this] False show ?thesis
      by (simp add: build_records_snoc obj_set_keeps_other)
  qed
qed

lemma build_records_keys: "fst ` set (build_records f g xs) = f ` set xs - {''__proto__''}"
proof (induction xs rule: rev_induct)
  case Nil
  show ?case by (simp add: build_records_def)
next
  case (snoc x xs)
  from keys_obj_set [OF build_records_no_proto, of f g xs "f x" "g x"] snoc.IH
  show ?case by (auto simp: build_records_snoc)
qed

lemma build_records_distinct: "distinct (map fst (build_records f g xs))"
  by (induction xs rule: rev_induct)
     (simp_all add: build_records_snoc distinct_obj_set build_records_def)

lemma fetchAttendance_loaded:
  assumes "getClassAttendance (selectedClass st) (selectedDate st) (section_or_undefined st)
             = Inr data"
  shows "attendanceRecords (fetchAttendance getClassAttendance st)
           = build_records student_id status_or_present data"
    and "attendanceData (fetchAttendance getClassAttendance st) = data"
    and "selectedClass (fetchAttendance getClassAttendance st) = selectedClass st"
    and "selectedDate (fetchAttendance getClassAttendance st) = selectedDate st"
    and "section_or_undefined (fetchAttendance getClassAttendance st) = section_or_undefined st"
  using assms by (simp_all add: fetchAttendance_def build_records_def section_or_undefined_def)

lemma saved_request:
  "fst (handleSaveAttendance bulkMarkAttendance getClassAttendance st) = bulk_payload st"
  by (simp add: handleSaveAttendance_def)

lemma payload_records: "records (bulk_payload st) = Object_entries (attendanceRecords st)"
  by (simp add: bulk_payload_def)

lemma payload_fields:
  "class_id (bulk_payload st) = selectedClass st"
  "date (bulk_payload st) = selectedDate st"
  "section_id (bulk_payload st) = section_or_undefined st"
  "attendance_type (bulk_payload st) = ''daily''"
  by (simp_all add: bulk_payload_def)

text \<open>
  C8. After the attendance of the selected class and date has been loaded, a
  listed student whose fetched rows carry no status (missing, null or empty) has
  the status present in the marking state. Saving that state without an edit posts
  a bulk request for the selected class, section and date, of type daily, with
  exactly one record per listed student, and the record of such a student says
  present. The student's id is taken to be an identifier of the backend's, not the
  property name \<open>__proto__\<close>, under which a plain object stores nothing.
\<close>

theorem unmarked_students_default_present:
  assumes "getClassAttendance (selectedClass st) (selectedDate st) (section_or_undefined st)
             = Inr data"
    and "student \<in> set data"
    and "\<forall>r \<in> set data. student_id r = student_id student \<longrightarrow>
           status r = None \<or> status r = Some []"
    and "student_id student \<noteq> ''__proto__''"
    and "loaded = fetchAttendance getClassAttendance st"
    and "request = fst (handleSaveAttendance bulkMarkAttendance getClassAttendance' loaded)"
  shows "map_of (attendanceRecords loaded) (student_id student) = Some ''present''
         \<and> (student_id student, ''present'') \<in> set (records request)
         \<and> distinct (map fst (records request))
         \<and> fst ` set (records request) = student_id ` set data - {''__proto__''}
         \<and> class_id request = selectedClass st
         \<and> date request = selectedDate st
         \<and> section_id request = section_or_undefined st
         \<and> attendance_type request = ''daily''"
proof -
  let ?recs = "build_records student_id status_or_present data"
  note loaded = fetchAttendance_loaded [of getClassAttendance st data, OF assms(1)]
  note np = assms(4)
  from assms(3) have "\<forall>r \<in> set data. student_id r = student_id student \<longrightarrow>
      status_or_present r = ''present''"
    by (auto simp: status_or_present_def)
  with assms(2) have look: "map_of ?recs (student_id student) = Some ''present''"
    by (intro build_records_lookup [OF np]) auto
  then have mem: "(student_id student, ''present'') \<in> set ?recs"
    by (rule map_of_SomeD)
  have keys: "fst ` set ?recs = student_id ` set data - {''__proto__''}"
    by (rule build_records_keys)
  have req: "request = bulk_payload loaded"
    by (simp add: assms(6) saved_request)
  have recs: "records request = Object_entries ?recs"
    by (simp add: req payload_records assms(5) loaded)
  show ?thesis
    unfolding recs set_Object_entries
    using look mem keys
    by (simp add: assms(5) loaded distinct_Object_entries build_records_distinct req
        payload_fields)
qed

theorem unmarked_students_default_present_witness:
  "set (records (fst (handleSaveAttendance accepting_api unmarked_api
                        (fetchAttendance unmarked_api mixed_page))))
     = {(''s1'', ''present''), (''s2'', ''present'')}
   \<and> date (fst (handleSaveAttendance accepting_api unmarked_api
                   (fetchAttendance unmarked_api mixed_page))) = ''2024-01-15''
   \<and> class_id (fst (handleSaveAttendance accepting_api unmarked_api
                       (fetchAttendance unmarked_api mixed_page))) = ''c1''"
proof -
  let ?student = "\<lparr>student_id = ''s2'', status = None\<rparr>"
  have a: "unmarked_api (selectedClass mixed_page) (selectedDate mixed_page)
             (section_or_undefined mixed_page) = Inr unmarked_class"
    by (simp add: unmarked_api_def)
  have b: "?student \<in> set unmarked_class"
    by (simp add: unmarked_class_def)
  have c: "\<forall>r \<in> set unmarked_class. student_id r = student_id ?student \<longrightarrow>
             status r = None \<or> status r = Some []"
    by (simp add: unmarked_class_def)
  have d: "student_id ?student \<noteq> ''__proto__''"
    by simp
  have r: "build_records student_id status_or_present unmarked_class
             = [(''s1'', ''present''), (''s2'', ''present'')]"
    by (simp add: build_records_def unmarked_class_def status_or_present_def obj_set_def)
  note loaded = fetchAttendance_loaded [of unmarked_api mixed_page unmarked_class, OF a]
  have recs: "attendanceRecords (fetchAttendance unmarked_api mixed_page)
                = [(''s1'', ''present''), (''s2'', ''present'')]"
    by (simp add: loaded r)
  have "selectedClass mixed_page = ''c1''" and "selectedDate mixed_page = ''2024-01-15''"
    by (simp_all add: mixed_page_def)
  then have sel: "selectedClass (fetchAttendance unmarked_api mixed_page) = ''c1''"
    "selectedDate (fetchAttendance unmarked_api mixed_page) = ''2024-01-15''"
    by (simp_all add: loaded)
  note inst = unmarked_students_default_present
    [where getClassAttendance = unmarked_api and st = mixed_page and data = unmarked_class
       and student = ?student and bulkMarkAttendance = accepting_api
       and getClassAttendance' = unmarked_api,
     OF a b c d refl refl]
  from inst show ?thesis
    by (simp add: saved_request payload_records payload_fields recs sel set_Object_entries)
qed

section \<open>Properties of the route guard\<close>

lemma provider_state_loaded:
  "provider_state st \<Longrightarrow> user st \<noteq> None \<Longrightarrow> \<not> loading st"
  by (induction rule: provider_state.induct)
     (auto simp: initial_auth_state_def mount_effect_def login_def register_def logout_def
        updateUser_def updateSchool_def split: option.splits)

lemma guarded_route:
  "map_of layout_routes ''school-setup''
     = Some (ProtectedRoute (Page ''SchoolSetupPage'') (Some admin_types))"
  "map_of layout_routes ''users'' = Some (ProtectedRoute (Page ''UsersPage'') (Some admin_types))"
  "map_of layout_routes ''classes''
     = Some (ProtectedRoute (Page ''ClassesPage'') (Some admin_types))"
  "map_of layout_routes ''subjects''
     = Some (ProtectedRoute (Page ''SubjectsPage'') (Some admin_types))"
  by (simp_all add: layout_routes_def)

text \<open>
  Whatever the provider's state, a guard with the admin list never lets a user of
  another type through to its page.
\<close>

lemma non_admin_never_sees_page:
  "user st = Some u \<Longrightarrow> user_type u \<notin> Some ` set admin_types \<Longrightarrow>
   ProtectedRoute (Page p) (Some admin_types) st \<noteq> Page p"
  by (auto simp: ProtectedRoute_def includes_user_type_def split: option.splits)

text \<open>
  C2. For an authenticated user whose \<open>user_type\<close> is not school_admin,
  super_admin or principal, \<open>ProtectedRoute\<close> with that list of allowed types
  returns the redirect to \<open>/dashboard\<close>, and so do the routes school-setup,
  users, classes and subjects (inside the layout), instead of their pages.
\<close>

theorem non_admin_redirected_to_dashboard:
  assumes "provider_state st" and "user st = Some u"
    and "user_type u \<notin> {Some ''school_admin'', Some ''super_admin'', Some ''principal''}"
  shows "isAuthenticated st
         \<and> ProtectedRoute (Page p) (Some admin_types) st = Navigate ''/dashboard''
         \<and> AppRoutes ''school-setup'' st = MainLayout (Navigate ''/dashboard'')
         \<and> AppRoutes ''users'' st = MainLayout (Navigate ''/dashboard'')
         \<and> AppRoutes ''classes'' st = MainLayout (Navigate ''/dashboard'')
         \<and> AppRoutes ''subjects'' st = MainLayout (Navigate ''/dashboard'')"
proof -
  from assms(2) have au: "isAuthenticated st"
    by (simp add: isAuthenticated_def)
  from assms(1,2) have nl: "\<not> loading st"
    by (simp add: provider_state_loaded)
  from assms(2,3) have "\<not> includes_user_type admin_types (user st)"
    by (auto simp: includes_user_type_def admin_types_def split: option.splits)
  with nl au have g: "\<And>q. ProtectedRoute (Page q) (Some admin_types) st = Navigate ''/dashboard''"
    by (simp add: ProtectedRoute_def)
  from nl au have o: "\<And>c. ProtectedRoute c None st = c"
    by (simp add: ProtectedRoute_def)
  show ?thesis
    unfolding AppRoutes_def guarded_route o using au by (simp add: g)
qed

theorem non_admin_redirected_to_dashboard_witness:
  "AppRoutes ''users'' teacher_state = MainLayout (Navigate ''/dashboard'')
   \<and> ProtectedRoute (Page ''UsersPage'') (Some admin_types) teacher_state
       = Navigate ''/dashboard''"
proof -
  let ?u = "\<lparr>user_id = ''u1'', user_type = Some ''teacher''\<rparr>"
  have a: "provider_state teacher_state"
    unfolding teacher_state_def
    by (rule provider_state.logged_in [OF provider_state.mounted])
       (simp add: mount_effect_def)
  have b: "user teacher_state = Some ?u"
    by (simp add: teacher_state_def login_def)
  have c: "user_type ?u \<notin> {Some ''school_admin'', Some ''super_admin'', Some ''principal''}"
    by simp
  from non_admin_redirected_to_dashboard [OF a b c, of "''UsersPage''"]
  show ?thesis by simp
qed

section \<open>Properties of the API client\<close>

lemma request_interceptor_retry [simp]:
  "retry (request_interceptor w config) = retry config"
  by (simp add: request_interceptor_def split: option.splits)

lemma response_error_retried:
  "retry config \<Longrightarrow> response_error srv config st w = (Rejected st, w)"
  by (simp add: response_error.simps)

lemma api_retried:
  assumes "retry config"
  shows "api srv config w =
           (respond srv (events w) (request_interceptor w config),
            w\<lparr>events := events w @ [Sent (request_interceptor w config)]\<rparr>)"
  using assms by (simp add: api.simps response_error_retried split: api_response.splits)

lemma response_error_bounded:
  "\<exists>evs. events (snd (response_error srv config st w)) = events w @ evs
         \<and> length (filter is_refresh evs) \<le> 1 \<and> length (filter is_sent evs) \<le> 1"
proof (cases "st = Some 401 \<and> \<not> retry config")
  case False
  then have "response_error srv config st w = (Rejected st, w)"
    by (auto simp: response_error.simps)
  then show ?thesis by simp
next
  case first_401: True
  show ?thesis
  proof (cases "localStorage w ''refresh_token''")
    case None
    with first_401 have "response_error srv config st w = (Rejected st, w)"
      by (simp add: response_error.simps)
    then show ?thesis by simp
  next
    case (Some rt)
    show ?thesis
    proof (cases "rt = []")
      case True
      with first_401 Some have "response_error srv config st w = (Rejected st, w)"
        by (simp add: response_error.simps)
      then show ?thesis by simp
    next
      case False
      show ?thesis
      proof (cases "refresh srv (events w) rt")
        case (Inl e)
        with first_401 Some False show ?thesis
          by (simp add: response_error.simps)
      next
        case (Inr tok)
        with first_401 Some False show ?thesis
          by (simp add: response_error.simps api_retried)
      qed
    qed
  qed
qed

text \<open>
  C9. A request through the client leads to at most one refresh of the token and
  at most one repetition of the request (two sends in all), whatever the backend
  answers. When the first answer is 401, the request is not yet flagged \<open>_retry\<close>,
  a refresh token is stored and the refresh fails, the client removes
  \<open>access_token\<close>, \<open>refresh_token\<close> and \<open>user\<close> from the storage, in that order,
  then sets the location to \<open>/login\<close>, and rejects with the original error.
\<close>

theorem at_most_one_refresh_and_retry:
  "(\<exists>evs. events (snd (api srv config w)) = events w @ evs
          \<and> length (filter is_refresh evs) \<le> 1 \<and> length (filter is_sent evs) \<le> 2)
   \<and> (respond srv (events w) (request_interceptor w config) = Rejected (Some 401)
        \<and> \<not> retry config
        \<and> localStorage w ''refresh_token'' = Some refreshToken \<and> refreshToken \<noteq> []
        \<and> refresh srv (events w @ [Sent (request_interceptor w config)]) refreshToken = Inl e
      \<longrightarrow> fst (api srv config w) = Rejected (Some 401)
          \<and> localStorage (snd (api srv config w)) ''access_token'' = None
          \<and> localStorage (snd (api srv config w)) ''refresh_token'' = None
          \<and> localStorage (snd (api srv config w)) ''user'' = None
          \<and> href (snd (api srv config w)) = ''/login''
          \<and> events (snd (api srv config w)) =
              events w @ [Sent (request_interceptor w config), RefreshPosted refreshToken,
                          RemoveItem ''access_token'', RemoveItem ''refresh_token'',
                          RemoveItem ''user'', Redirected ''/login''])"
proof (intro conjI impI)
  let ?c = "request_interceptor w config"
  let ?w = "w\<lparr>events := events w @ [Sent ?c]\<rparr>"
  show "\<exists>evs. events (snd (api srv config w)) = events w @ evs
          \<and> length (filter is_refresh evs) \<le> 1 \<and> length (filter is_sent evs) \<le> 2"
  proof (cases "respond srv (events w) ?c")
    case (Delivered d)
    then show ?thesis by (simp add: api.simps)
  next
    case (Rejected st)
    from response_error_bounded [of srv ?c st ?w]
    obtain evs where "events (snd (response_error srv ?c st ?w)) = events ?w @ evs"
      and "length (filter is_refresh evs) \<le> 1" and "length (filter is_sent evs) \<le> 1"
      by blast
    with Rejected show ?thesis
      by (simp add: api.simps)
  qed
next
  assume a: "respond srv (events w) (request_interceptor w config) = Rejected (Some 401)
        \<and> \<not> retry config
        \<and> localStorage w ''refresh_token'' = Some refreshToken \<and> refreshToken \<noteq> []
        \<and> refresh srv (events w @ [Sent (request_interceptor w config)]) refreshToken = Inl e"
  then have eq: "api srv config w =
      (Rejected (Some 401),
       w\<lparr>localStorage := (localStorage w)(''access_token'' := None, ''refresh_token'' := None,
                                          ''user'' := None),
         href := ''/login'',
         events := events w @ [Sent (request_interceptor w config), RefreshPosted refreshToken,
                          RemoveItem ''access_token'', RemoveItem ''refresh_token'',
                          RemoveItem ''user'', Redirected ''/login'']\<rparr>)"
    by (simp add: api.simps response_error.simps)
  show "fst (api srv config w) = Rejected (Some 401)"
    "localStorage (snd (api srv config w)) ''access_token'' = None"
    "localStorage (snd (api srv config w)) ''refresh_token'' = None"
    "localStorage (snd (api srv config w)) ''user'' = None"
    "href (snd (api srv config w)) = ''/login''"
    "events (snd (api srv config w)) =
              events w @ [Sent (request_interceptor w config), RefreshPosted refreshToken,
                          RemoveItem ''access_token'', RemoveItem ''refresh_token'',
                          RemoveItem ''user'', Redirected ''/login'']"
    unfolding eq by simp_all
qed

theorem at_most_one_refresh_and_retry_witness:
  "fst (api expired_backend students_request session_browser) = Rejected (Some 401)
   \<and> localStorage (snd (api expired_backend students_request session_browser)) ''access_token''
       = None
   \<and> localStorage (snd (api expired_backend students_request session_browser)) ''user'' = None
   \<and> href (snd (api expired_backend students_request session_browser)) = ''/login''"
  using at_most_one_refresh_and_retry
    [of expired_backend students_request session_browser "''r1''" "()"]
  by (simp add: expired_backend_def session_browser_def students_request_def)

section \<open>Properties of the student and parent pages\<close>

lemma percent_text_absent:
  "v = None \<or> v = Some JNull \<Longrightarrow> percent_text v = Inr [Number 0, Text ''%'']"
  by (auto simp: percent_text_def js_or_def truthy_def)

text \<open>
  C6, as the code has it. Where a page shows the attendance figure and the
  percentage is absent (undefined or null, also through a missing parent object),
  the figure is the number 0 followed by the percent sign. \<open>StudentPortalPage\<close>
  shows the figure once it has loaded and its data hold a student; before, it shows
  the spinner, and without a student the card \<open>Student profile not found.\<close>
  \<open>ParentChildrenPage\<close> shows it once it has loaded, for a selected child; before,
  it shows the spinner, without children the card
  \<open>No children linked to your account.\<close>, and without a selection nothing.
  \<open>StudentDashboard\<close> always shows it. The progress bar of a subject whose average
  is absent has the value 0.
\<close>

theorem absent_percentage_shown_as_zero:
  "(opt_chain (opt_chain (dashboardData pst) ''attendance'') ''percentage''
       \<in> {None, Some JNull}
      \<longrightarrow> StudentPortalPage_attendance pst =
           (if loading_portal pst then LoadingSpinner
            else if truthy (opt_chain (dashboardData pst) ''student'')
              then Figure (Inr [Number 0, Text ''%''])
            else EmptyCard ''Student profile not found.''))
   \<and> (opt_chain (opt_chain (attendanceData_child cst) ''summary'') ''attendance_percentage''
         \<in> {None, Some JNull}
      \<longrightarrow> ParentChildrenPage_attendance cst =
           (if loading_children cst then LoadingSpinner
            else if children cst = [] then EmptyCard ''No children linked to your account.''
            else if truthy (selectedChild cst) then Figure (Inr [Number 0, Text ''%''])
            else NotShown))
   \<and> (opt_chain (opt_chain data ''attendance'') ''percentage'' \<in> {None, Some JNull}
      \<longrightarrow> StudentDashboard_attendance data = Figure (Inr [Number 0, Text ''%'']))
   \<and> (map_of subject ''average_percentage'' \<in> {None, Some JNull}
      \<longrightarrow> average_progress subject = Some (JNum 0))"
  by (auto simp: StudentPortalPage_attendance_def ParentChildrenPage_attendance_def
      StudentDashboard_attendance_def percent_text_absent
      average_progress_def js_or_def truthy_def)

text \<open>
  C6 as stated fails: for a student without any marked day, whose dashboard carries
  the percentage null, the loaded \<open>StudentPortalPage\<close> shows \<open>0%\<close>.
\<close>

theorem null_percentage_counterexample:
  "StudentPortalPage_attendance
     \<lparr>dashboardData = Some unmarked_dashboard, gradesData = Some no_grades,
      loading_portal = False, toasts_portal = []\<rparr>
     = Figure (Inr [Number 0, Text ''%''])"
  by (simp add: StudentPortalPage_attendance_def percent_text_def js_or_def truthy_def
      opt_chain_def unmarked_dashboard_def)

theorem absent_percentage_shown_as_zero_witness:
  "ParentChildrenPage_attendance
     (snd (fetchChildData (Inl ''Network Error'') (Inr no_grades) initial_children_page))
     = Figure (Inr [Number 0, Text ''%''])
   \<and> StudentPortalPage_attendance
       (snd (fetchData (Inl ''Network Error'') (Inr no_grades) initial_portal_page))
     = EmptyCard ''Student profile not found.''
   \<and> StudentDashboard_attendance (Some JNull) = Figure (Inr [Number 0, Text ''%''])
   \<and> average_progress [(''subject_name'', JStr ''Maths'')] = Some (JNum 0)"
  using absent_percentage_shown_as_zero
    [of "snd (fetchData (Inl ''Network Error'') (Inr no_grades) initial_portal_page)"
        "snd (fetchChildData (Inl ''Network Error'') (Inr no_grades) initial_children_page)"
        "Some JNull" "[(''subject_name'', JStr ''Maths'')]"]
  by (simp add: opt_chain_def no_attendance_def fetchChildData_def fetchData_def
      Promise_all_def catch_with_def initial_children_page_def initial_portal_page_def
      truthy_def)

text \<open>
  C7, as the code has it. Neither \<open>fetchChildData\<close> nor \<open>fetchData\<close> ever rejects.
  In \<open>fetchChildData\<close> a failed attendance request is replaced by
  \<open>{records: [], summary: {}}\<close> and a failed grades request by \<open>{subjects: []}\<close>;
  in \<open>fetchData\<close> a failed grades request is replaced by \<open>{subjects: []}\<close>, and a
  failed dashboard request is caught and reported by the toast
  \<open>Failed to load data\<close>, the data staying as they were.
\<close>

theorem fetch_failures_replaced:
  "fst (fetchChildData attendanceRes gradesRes st) = Inr ()
   \<and> fst (fetchData dashRes gradesRes' pst) = Inr ()
   \<and> (attendanceRes = Inl e \<longrightarrow>
        attendanceData_child (snd (fetchChildData attendanceRes gradesRes st))
          = Some no_attendance)
   \<and> (gradesRes = Inl e \<longrightarrow>
        gradesData_child (snd (fetchChildData attendanceRes gradesRes st)) = Some no_grades)
   \<and> (dashRes = Inr d \<and> gradesRes' = Inl e \<longrightarrow>
        gradesData (snd (fetchData dashRes gradesRes' pst)) = Some no_grades)
   \<and> (dashRes = Inl e \<longrightarrow>
        snd (fetchData dashRes gradesRes' pst)
          = pst\<lparr>toasts_portal := toasts_portal pst @ [ToastError ''Failed to load data''],
                loading_portal := False\<rparr>)"
  by (auto simp: fetchChildData_def fetchData_def Promise_all_def catch_with_def
      split: sum.splits)

text \<open>
  C7 as stated fails: when the attendance request is rejected, \<open>fetchChildData\<close>
  resolves and stores the empty record set in place of the failure.
\<close>

theorem failed_attendance_fetch_counterexample:
  "fetchChildData (Inl ''Network Error'') (Inr no_grades) initial_children_page
     = (Inr (),
        initial_children_page
          \<lparr>attendanceData_child := Some no_attendance, gradesData_child := Some no_grades\<rparr>)"
  by (simp add: fetchChildData_def Promise_all_def catch_with_def)

theorem fetch_failures_replaced_witness:
  "fst (fetchChildData (Inl ''Network Error'') (Inl ''Network Error'') initial_children_page)
     = Inr ()
   \<and> attendanceData_child
        (snd (fetchChildData (Inl ''Network Error'') (Inl ''Network Error'')
                initial_children_page)) = Some no_attendance
   \<and> toasts_portal (snd (fetchData (Inl ''Network Error'') (Inl ''Network Error'')
                            initial_portal_page)) = [ToastError ''Failed to load data'']"
  using fetch_failures_replaced
    [of "Inl ''Network Error''" "Inl ''Network Error''" initial_children_page
        "Inl ''Network Error''" "Inl ''Network Error''" initial_portal_page "''Network Error''"]
  by (simp add: initial_portal_page_def)

section \<open>Properties of the authorization guard and the aggregation service\<close>

text \<open>
  C1. Whenever the tenant of the target resource differs from the acting user's
  \<open>school_id\<close>, \<open>authorize\<close> denies with \<open>CrossTenantAccess\<close>: for every
  role, action and resource, every content of the Role-Permission Table and every
  outcome of the ownership lookup, a failing one included, since neither is
  consulted before the tenant check.
\<close>

theorem cross_tenant_denied_first:
  "resourceTenantId \<noteq> school_id usr \<Longrightarrow>
   authorize table usr act resourceType resourceTenantId ownershipCheck
     = Inr (Deny CrossTenantAccess)"
  by (simp add: authorize_def)

theorem cross_tenant_denied_first_witness:
  "authorize teachers_mark_attendance teacher_of_S1 Bulk ''attendance'' ''S2'' (Inr True)
     = Inr (Deny CrossTenantAccess)
   \<and> authorize teachers_mark_attendance teacher_of_S1 Bulk ''attendance'' ''S1'' (Inr True)
     = Inr Allow"
proof -
  have "''S2'' \<noteq> school_id teacher_of_S1"
    by (simp add: teacher_of_S1_def)
  from cross_tenant_denied_first [OF this] show ?thesis
    by (simp add: authorize_def teacher_of_S1_def teachers_mark_attendance_def
        ownership_scoped_def)
qed

lemma round1_close: "\<bar>round1 x - x\<bar> \<le> 1 / 20"
proof -
  have "\<bar>of_int (round (x * 10)) - x * 10\<bar> \<le> 1 / 2"
    by (rule of_int_round_abs_le)
  then have "\<bar>(of_int (round (x * 10)) - x * 10) / 10\<bar> \<le> (1 / 2) / 10"
    by (simp only: abs_divide) simp
  then show ?thesis
    by (simp add: round1_def diff_divide_distrib)
qed

lemma ten_days_marked: "marked_days ten_days 1 12 = ten_days"
  by (simp add: marked_days_def ten_days_def)

lemma ten_days_percentage: "percentage (summarizeAttendance ten_days 1 12) = 70"
  by (simp add: summarizeAttendance_def ten_days_marked Let_def)
     (simp add: ten_days_def count_status_def round1_def)

text \<open>
  C3. The percentage of the attendance summary is the present count divided by the
  number of marked days, times 100, rounded to one decimal (so within 1/20 of the
  exact value); only records count as days, and with no marked day the percentage
  is 0. Ten marked days with 7 present, 2 absent and 1 late give 70.
\<close>

theorem attendance_percentage_rounded:
  "percentage (summarizeAttendance recs start_date end_date) =
     (if length (marked_days recs start_date end_date) = 0 then 0
      else round1 (of_nat (count_status Present (marked_days recs start_date end_date))
                   / of_nat (length (marked_days recs start_date end_date)) * 100))
   \<and> (length (marked_days recs start_date end_date) \<noteq> 0 \<longrightarrow>
        \<bar>percentage (summarizeAttendance recs start_date end_date)
          - of_nat (count_status Present (marked_days recs start_date end_date))
            / of_nat (length (marked_days recs start_date end_date)) * 100\<bar> \<le> 1 / 20)
   \<and> percentage (summarizeAttendance [] start_date end_date) = 0
   \<and> percentage (summarizeAttendance ten_days 1 12) = 70"
proof (intro conjI impI)
  show "percentage (summarizeAttendance recs start_date end_date) =
     (if length (marked_days recs start_date end_date) = 0 then 0
      else round1 (of_nat (count_status Present (marked_days recs start_date end_date))
                   / of_nat (length (marked_days recs start_date end_date)) * 100))"
    by (simp add: summarizeAttendance_def Let_def)
  show "percentage (summarizeAttendance [] start_date end_date) = 0"
    by (simp add: summarizeAttendance_def marked_days_def Let_def)
  show "percentage (summarizeAttendance ten_days 1 12) = 70"
    by (rule ten_days_percentage)
next
  assume nz: "length (marked_days recs start_date end_date) \<noteq> 0"
  have eq: "percentage (summarizeAttendance recs start_date end_date) =
      round1 (of_nat (count_status Present (marked_days recs start_date end_date))
                   / of_nat (length (marked_days recs start_date end_date)) * 100)"
    unfolding summarizeAttendance_def Let_def
    by (simp only: attendance_result.select_convs nz if_False)
  show "\<bar>percentage (summarizeAttendance recs start_date end_date)
          - of_nat (count_status Present (marked_days recs start_date end_date))
            / of_nat (length (marked_days recs start_date end_date)) * 100\<bar> \<le> 1 / 20"
    unfolding eq by (rule round1_close)
qed

theorem attendance_percentage_rounded_witness:
  "percentage (summarizeAttendance (take 3 ten_days) 1 12) = 667 / 10"
proof -
  have m: "marked_days (take 3 ten_days) 1 12 = take 3 ten_days"
    by (simp add: marked_days_def ten_days_def)
  have r: "round1 (2 / 3 * 100) = 667 / 10"
    by (simp add: round1_def round_def floor_eq_iff)
  from attendance_percentage_rounded [of "take 3 ten_days" 1 12]
  have "percentage (summarizeAttendance (take 3 ten_days) 1 12) =
      round1 (of_nat (count_status Present (take 3 ten_days)) / of_nat (length (take 3 ten_days)) * 100)"
    unfolding m by (simp add: ten_days_def)
  also have "\<dots> = 667 / 10"
    using r by (simp add: ten_days_def count_status_def)
  finally show ?thesis .
qed

text \<open>
  C4. \<open>averageGrades\<close> gives the same result with the entries of \<open>max_score = 0\<close>
  removed; it is null exactly when no other entry exists, and otherwise the weighted
  sum of \<open>score / max_score\<close> over the sum of the weights, times 100, both sums over
  the remaining entries. The empty list gives null, and the two entries
  (8 of 10, 0 of 0), each of weight 1, give 80.
\<close>

theorem averageGrades_excludes_zero_max:
  "averageGrades grades = averageGrades (filter (\<lambda>g. max_score g \<noteq> 0) grades)
   \<and> (averageGrades grades = None) = (filter (\<lambda>g. max_score g \<noteq> 0) grades = [])
   \<and> (filter (\<lambda>g. max_score g \<noteq> 0) grades \<noteq> [] \<longrightarrow>
        averageGrades grades =
          Some (sum_list (map (\<lambda>g. score g / max_score g * weight g)
                              (filter (\<lambda>g. max_score g \<noteq> 0) grades))
                / sum_list (map weight (filter (\<lambda>g. max_score g \<noteq> 0) grades)) * 100))
   \<and> averageGrades [] = None
   \<and> averageGrades two_grades = Some 80"
  by (simp add: averageGrades_def Let_def two_grades_def)

theorem averageGrades_excludes_zero_max_witness:
  "averageGrades two_grades = averageGrades [\<lparr>score = 8, max_score = 10, weight = 1\<rparr>]
   \<and> averageGrades two_grades = Some (8 / 10 * 1 / 1 * 100)"
  using averageGrades_excludes_zero_max [of two_grades]
  by (simp add: two_grades_def averageGrades_def)

end
